theory Spec2Isabelle
  imports Main
begin

section \<open>JavaScript values and objects\<close>

text \<open>
  The predicates of the library take arguments of type \<open>unknown\<close>; they test
  them with \<open>typeof\<close>, \<open>===\<close> and \<open>includes\<close> only, so the primitive values are
  enough. A string is its sequence of code units; every character the library
  compares against is a string of length one. The code units are the 256 values of
  \<open>char\<close>: the library tells the code units from 128 on apart from no other, as
  none of them is a pair character or a word character.
\<close>

datatype jsval = JUndefined | JNull | JBool bool | JNum int | JStr string

fun isString :: "jsval \<Rightarrow> bool" where
  "isString (JStr s) = True"
| "isString v = False"

text \<open>\<open>xs.includes(v)\<close> on an array of strings: only a string can be found.\<close>

fun js_includes :: "string list \<Rightarrow> jsval \<Rightarrow> bool" where
  "js_includes xs (JStr s) = (s \<in> set xs)"
| "js_includes xs v = False"

text \<open>\<open>s[i]\<close>: the code unit at index \<open>i\<close> as a string, \<open>undefined\<close> out of range.\<close>

definition js_index :: "string \<Rightarrow> int \<Rightarrow> jsval" where
  "js_index s i = (if 0 \<le> i \<and> i < int (length s) then JStr [s ! nat i] else JUndefined)"

text \<open>A lookup result (a string or \<open>undefined\<close>) as a value, and inside \<open>+\<close>.\<close>

fun js_of_lookup :: "string option \<Rightarrow> jsval" where
  "js_of_lookup None = JUndefined"
| "js_of_lookup (Some s) = JStr s"

fun js_concat_lookup :: "string \<Rightarrow> string option \<Rightarrow> string" where
  "js_concat_lookup s None = s @ ''undefined''"
| "js_concat_lookup s (Some t) = s @ t"

text \<open>
  An object is the list of its own entries in insertion order. Writing a key that
  exists replaces its value in place; a new key goes last. The spread
  \<open>{...base, ...ext}\<close> writes the entries of \<open>ext\<close> in order over a copy of \<open>base\<close>.
\<close>

fun obj_set :: "'k \<Rightarrow> 'v \<Rightarrow> ('k \<times> 'v) list \<Rightarrow> ('k \<times> 'v) list" where
  "obj_set k v [] = [(k, v)]"
| "obj_set k v ((k', v') # rest) =
     (if k' = k then (k, v) # rest else (k', v') # obj_set k v rest)"

definition spread :: "('k \<times> 'v) list \<Rightarrow> ('k \<times> 'v) list \<Rightarrow> ('k \<times> 'v) list" where
  "spread base ext = fold (\<lambda>(k, v) obj. obj_set k v obj) ext base"

text \<open>
  The names of the members every object literal inherits from \<open>Object.prototype\<close>;
  the operator \<open>in\<close> finds them as well as the own keys.
\<close>

definition Object_prototype_names :: "string list" where
  "Object_prototype_names =
     [''constructor'', ''__defineGetter__'', ''__defineSetter__'', ''hasOwnProperty'',
      ''__lookupGetter__'', ''__lookupSetter__'', ''isPrototypeOf'',
      ''propertyIsEnumerable'', ''toString'', ''valueOf'', ''__proto__'',
      ''toLocaleString'']"

definition js_in :: "string \<Rightarrow> string list \<Rightarrow> bool" where
  "js_in k own_keys = (k \<in> set own_keys \<or> k \<in> set Object_prototype_names)"

section \<open>The characters (lib/pairs.ts and lib/chars.ts)\<close>

definition Quote_Double :: string where
  "Quote_Double = [CHR 0x22]"

definition Quote_Single :: string where
  "Quote_Single = [CHR 0x27]"

definition OpeningBracket_Round :: string where
  "OpeningBracket_Round = ''(''"

definition OpeningBracket_Square :: string where
  "OpeningBracket_Square = ''[''"

definition OpeningBracket_Curly :: string where
  "OpeningBracket_Curly = ''{''"

definition OpeningBracket_Angle :: string where
  "OpeningBracket_Angle = ''<''"

definition ClosingBracket_Round :: string where
  "ClosingBracket_Round = '')''"

definition ClosingBracket_Square :: string where
  "ClosingBracket_Square = '']''"

definition ClosingBracket_Curly :: string where
  "ClosingBracket_Curly = ''}''"

definition ClosingBracket_Angle :: string where
  "ClosingBracket_Angle = ''>''"

datatype AutopairGroup =
  RoundBrackets | AngleBrackets | CurlyBrackets | SquareBrackets | DoubleQuotes | SingleQuotes

fun AutopairGroup_value :: "AutopairGroup \<Rightarrow> string" where
  "AutopairGroup_value RoundBrackets = ''roundBrackets''"
| "AutopairGroup_value AngleBrackets = ''angleBrackets''"
| "AutopairGroup_value CurlyBrackets = ''curlyBrackets''"
| "AutopairGroup_value SquareBrackets = ''squareBrackets''"
| "AutopairGroup_value DoubleQuotes = ''doubleQuotes''"
| "AutopairGroup_value SingleQuotes = ''singleQuotes''"

subsection \<open>lib/pairs.ts (packages/prosemirror-autopairs)\<close>

definition BACKSPACE :: string where
  "BACKSPACE = ''Backspace''"

definition OPEN_CLOSE_MAPPING :: "(string \<times> string) list" where
  "OPEN_CLOSE_MAPPING =
     [(OpeningBracket_Angle, ClosingBracket_Angle),
      (OpeningBracket_Curly, ClosingBracket_Curly),
      (OpeningBracket_Round, ClosingBracket_Round),
      (OpeningBracket_Square, ClosingBracket_Square),
      (Quote_Double, Quote_Double),
      (Quote_Single, Quote_Single)]"

definition ALL_OPENING_CHARS :: "string list" where
  "ALL_OPENING_CHARS = map fst OPEN_CLOSE_MAPPING"

definition ALL_CLOSING_CHARS :: "string list" where
  "ALL_CLOSING_CHARS = map snd OPEN_CLOSE_MAPPING"

definition ALL_AUTOPAIR_CHARS :: "string list" where
  "ALL_AUTOPAIR_CHARS = ALL_OPENING_CHARS @ ALL_CLOSING_CHARS"

fun AUTOPAIR_GROUPS :: "AutopairGroup \<Rightarrow> string list" where
  "AUTOPAIR_GROUPS AngleBrackets = [OpeningBracket_Angle, ClosingBracket_Angle]"
| "AUTOPAIR_GROUPS CurlyBrackets = [OpeningBracket_Curly, ClosingBracket_Curly]"
| "AUTOPAIR_GROUPS RoundBrackets = [OpeningBracket_Round, ClosingBracket_Round]"
| "AUTOPAIR_GROUPS SquareBrackets = [OpeningBracket_Square, ClosingBracket_Square]"
| "AUTOPAIR_GROUPS DoubleQuotes = [Quote_Double]"
| "AUTOPAIR_GROUPS SingleQuotes = [Quote_Single]"

definition ALL_CHAR_GROUPS :: "string list" where
  "ALL_CHAR_GROUPS =
     map AutopairGroup_value
       [RoundBrackets, AngleBrackets, CurlyBrackets, SquareBrackets, DoubleQuotes, SingleQuotes]"

definition isAutopairGroup :: "jsval \<Rightarrow> bool" where
  "isAutopairGroup g = (isString g \<and> js_includes ALL_CHAR_GROUPS g)"

definition isQuote :: "jsval \<Rightarrow> bool" where
  "isQuote ch = (ch = JStr Quote_Double \<or> ch = JStr Quote_Single)"

definition isOpeningCharacter :: "jsval \<Rightarrow> bool" where
  "isOpeningCharacter ch = (isString ch \<and> js_includes ALL_OPENING_CHARS ch)"

definition isClosingCharacter :: "jsval \<Rightarrow> bool" where
  "isClosingCharacter ch = (isString ch \<and> js_includes ALL_CLOSING_CHARS ch)"

definition isMatchingCharacter :: "jsval \<Rightarrow> bool" where
  "isMatchingCharacter ch = (isString ch \<and> js_includes ALL_AUTOPAIR_CHARS ch)"

text \<open>
  \<open>getClosingCharacter\<close> reads \<open>OPEN_CLOSE_MAPPING[char]\<close>. Its parameter is declared
  an opening character; the handlers call it after \<open>isMatchingCharacter\<close> and
  \<open>isMatchingPair\<close> after \<open>isOpeningCharacter\<close>, so the key is one of the pair
  characters there (the tests add \<open>'x'\<close>). The model covers keys that are not names
  of inherited members.
\<close>

definition getClosingCharacter :: "string \<Rightarrow> string option" where
  "getClosingCharacter ch = map_of OPEN_CLOSE_MAPPING ch"

definition isMatchingPair :: "jsval \<Rightarrow> jsval \<Rightarrow> bool" where
  "isMatchingPair charBefore charAfter =
     (let openingMatch = isOpeningCharacter charBefore;
          charAfterMatches = isClosingCharacter charAfter;
          isPair = openingMatch \<and> charAfterMatches
      in isPair \<and>
         (case charBefore of
            JStr s \<Rightarrow> js_of_lookup (getClosingCharacter s) = charAfter
          | _ \<Rightarrow> False))"

subsection \<open>lib/chars.ts (src)\<close>

text \<open>
  The older copy of the module. Its enums and tables have the contents of
  lib/pairs.ts; its three membership predicates share one body.
\<close>

definition AUTOPAIR_CHAR_GROUPS :: "(string \<times> string list) list" where
  "AUTOPAIR_CHAR_GROUPS =
     [(AutopairGroup_value AngleBrackets, [OpeningBracket_Angle, ClosingBracket_Angle]),
      (AutopairGroup_value CurlyBrackets, [OpeningBracket_Curly, ClosingBracket_Curly]),
      (AutopairGroup_value RoundBrackets, [OpeningBracket_Round, ClosingBracket_Round]),
      (AutopairGroup_value SquareBrackets, [OpeningBracket_Square, ClosingBracket_Square]),
      (AutopairGroup_value DoubleQuotes, [Quote_Double]),
      (AutopairGroup_value SingleQuotes, [Quote_Single])]"

text \<open>\<open>group in AUTOPAIR_CHAR_GROUPS\<close>: own keys and inherited members alike.\<close>

fun isCharGroup :: "jsval \<Rightarrow> bool" where
  "isCharGroup (JStr s) = js_in s (map fst AUTOPAIR_CHAR_GROUPS)"
| "isCharGroup v = False"

text \<open>
  \<open>AUTOPAIR_CHAR_GROUPS[group]\<close>: the character list of an own key, the inherited
  member for a name of \<open>Object.prototype\<close>, \<open>undefined\<close> otherwise (a key that is
  not a string is converted to one, which is no key of the object).
\<close>

datatype GroupMember = GroupChars "string list" | InheritedMember string | NoMember

fun group_member :: "jsval \<Rightarrow> GroupMember" where
  "group_member (JStr s) =
     (case map_of AUTOPAIR_CHAR_GROUPS s of
        Some cs \<Rightarrow> GroupChars cs
      | None \<Rightarrow> if s \<in> set Object_prototype_names then InheritedMember s else NoMember)"
| "group_member v = NoMember"

datatype error = InvalidGroupError jsval

definition resolveCharGroup :: "jsval \<Rightarrow> error + GroupMember" where
  "resolveCharGroup g =
     (if \<not> isCharGroup g then Inl (InvalidGroupError g) else Inr (group_member g))"

definition isQuoteChar :: "jsval \<Rightarrow> bool" where
  "isQuoteChar ch = (ch = JStr Quote_Double \<or> ch = JStr Quote_Single)"

definition AUTOPAIR_CHAR_MAP :: "(string \<times> string) list" where
  "AUTOPAIR_CHAR_MAP =
     [(OpeningBracket_Angle, ClosingBracket_Angle),
      (OpeningBracket_Curly, ClosingBracket_Curly),
      (OpeningBracket_Round, ClosingBracket_Round),
      (OpeningBracket_Square, ClosingBracket_Square),
      (Quote_Double, Quote_Double),
      (Quote_Single, Quote_Single)]"

definition chars_ALL_AUTOPAIR_CHARS :: "string list" where
  "chars_ALL_AUTOPAIR_CHARS = map fst AUTOPAIR_CHAR_MAP @ map snd AUTOPAIR_CHAR_MAP"

definition isOpeningChar :: "jsval \<Rightarrow> bool" where
  "isOpeningChar ch = (isString ch \<and> js_includes chars_ALL_AUTOPAIR_CHARS ch)"

definition isClosingChar :: "jsval \<Rightarrow> bool" where
  "isClosingChar ch = (isString ch \<and> js_includes chars_ALL_AUTOPAIR_CHARS ch)"

definition isAutopairChar :: "jsval \<Rightarrow> bool" where
  "isAutopairChar ch = (isString ch \<and> js_includes chars_ALL_AUTOPAIR_CHARS ch)"

definition findClosingMatch :: "string \<Rightarrow> string option" where
  "findClosingMatch ch = map_of AUTOPAIR_CHAR_MAP ch"

definition chars_isMatchingPair :: "jsval \<Rightarrow> jsval \<Rightarrow> bool" where
  "chars_isMatchingPair charBefore charAfter =
     (let openingMatch = isOpeningChar charBefore;
          charAfterMatches = isClosingChar charAfter;
          isPair = openingMatch \<and> charAfterMatches
      in isPair \<and>
         (case charBefore of
            JStr s \<Rightarrow> js_of_lookup (findClosingMatch s) = charAfter
          | _ \<Rightarrow> False))"

section \<open>The configuration\<close>

text \<open>
  \<open>AutopairsOptions\<close> is a partial record from the six groups to booleans: the list
  of its entries in insertion order. Both copies of the library declare the same
  default configuration.
\<close>

type_synonym AutopairsOptions = "(AutopairGroup \<times> bool) list"

definition defaultConfig :: AutopairsOptions where
  "defaultConfig =
     [(AngleBrackets, True), (CurlyBrackets, True), (RoundBrackets, True),
      (SquareBrackets, True), (DoubleQuotes, True), (SingleQuotes, True)]"

text \<open>lib/config.ts (src): no entry gives every character, else the enabled entries.\<close>

definition chars_of_group :: "AutopairGroup \<Rightarrow> string list" where
  "chars_of_group g =
     (case map_of AUTOPAIR_CHAR_GROUPS (AutopairGroup_value g) of
        Some cs \<Rightarrow> cs
      | None \<Rightarrow> [])"

definition resolveCharsToHandle :: "AutopairsOptions \<Rightarrow> string list" where
  "resolveCharsToHandle options =
     (let entries = options
      in if length entries = 0 then chars_ALL_AUTOPAIR_CHARS
         else concat (map (\<lambda>(g, enabled). chars_of_group g)
                (filter (\<lambda>(g, enabled). enabled) entries)))"

text \<open>lib/autopairs.ts (packages): the options are merged over the defaults first.\<close>

definition getEnabledAutopairChars :: "AutopairsOptions \<Rightarrow> string list" where
  "getEnabledAutopairChars options =
     concat (map (\<lambda>(g, enabled). AUTOPAIR_GROUPS g)
       (filter (\<lambda>(g, enabled). enabled) (spread defaultConfig options)))"

section \<open>The editor state the handlers read, and the transactions they dispatch\<close>

text \<open>
  The editor is the host's. A handler reads of it the selection (\<open>empty\<close>, \<open>from\<close>,
  \<open>to\<close>), the nodes before and after the resolved position \<open>$from\<close>, and the text
  between two positions. A node is a text node, which holds its text, or another
  node. A handler answers with the boolean the host reads as handled, and with the
  transaction it has dispatched, if any: the steps in order, and the position the
  new selection is taken near (\<open>Selection.near\<close> of the resolved position), if set.
\<close>

datatype Node = TextNode string | OtherNode

record EditorState =
  sel_empty :: bool
  sel_from :: int
  sel_to :: int
  nodeBefore :: "Node option"
  nodeAfter :: "Node option"
  doc_textBetween :: "int \<Rightarrow> int \<Rightarrow> string"

datatype Step = ReplaceWith int int string | InsertText string int | Delete int int

record Transaction =
  steps :: "Step list"
  selectionNear :: "int option"

type_synonym Command = "EditorState \<Rightarrow> bool \<Rightarrow> bool \<times> Transaction option"

text \<open>
  The document of the test fixtures: one paragraph holding one text node. Position
  1 is the start of the paragraph's content; the node before a position holds the
  text up to it, the node after it the rest, and there is no node at either end.
\<close>

definition paragraphState :: "string \<Rightarrow> int \<Rightarrow> int \<Rightarrow> EditorState" where
  "paragraphState txt a b =
     \<lparr> sel_empty = (a = b), sel_from = a, sel_to = b,
       nodeBefore = (if a \<le> 1 then None else Some (TextNode (take (nat (a - 1)) txt))),
       nodeAfter = (if int (length txt) < a then None else Some (TextNode (drop (nat (a - 1)) txt))),
       doc_textBetween = (\<lambda>f t. take (nat (t - f)) (drop (nat (f - 1)) txt)) \<rparr>"

section \<open>lib/utils.ts\<close>

text \<open>
  \<open>isTextNode(node)\<close> holds for a node that is present and a text node. Where a
  function reads \<open>node.text\<close> after this test, the model matches \<open>Some (TextNode t)\<close>.
\<close>

definition isTextNode :: "Node option \<Rightarrow> bool" where
  "isTextNode node = (case node of Some (TextNode t) \<Rightarrow> True | _ \<Rightarrow> False)"

text \<open>The class \<open>\w\<close> of a regular expression without flags: ASCII letters, digits, underscore.\<close>

definition isWordChar :: "char \<Rightarrow> bool" where
  "isWordChar c =
     (let n = (of_char c :: nat)
      in (48 \<le> n \<and> n \<le> 57) \<or> (65 \<le> n \<and> n \<le> 90) \<or> n = 95 \<or> (97 \<le> n \<and> n \<le> 122))"

text \<open>\<open>/\w/.test(s)\<close>: the pattern is not anchored, so one word character anywhere is a match.\<close>

definition wordCharRegex_test :: "string \<Rightarrow> bool" where
  "wordCharRegex_test s = list_ex isWordChar s"

definition isAdjacentToWordChar :: "string \<Rightarrow> string \<Rightarrow> bool" where
  "isAdjacentToWordChar charBefore charAfter =
     (wordCharRegex_test charBefore \<or> wordCharRegex_test charAfter)"

definition startsWith :: "string \<Rightarrow> string \<Rightarrow> bool" where
  "startsWith s p = (take (length p) s = p)"

definition shouldSkipClosing :: "EditorState \<Rightarrow> string \<Rightarrow> bool" where
  "shouldSkipClosing state ch =
     (if \<not> sel_empty state then False
      else (case nodeAfter state of
              Some (TextNode t) \<Rightarrow> startsWith t ch
            | _ \<Rightarrow> False))"

text \<open>
  \<open>charBefore\<close> is \<open>text.at(-1) ?? ''\<close> and \<open>charAfter\<close> is \<open>text[0]\<close>, each read only
  when the node is a text node with a non-empty text, and \<open>''\<close> otherwise.
\<close>

definition charBefore_of :: "Node option \<Rightarrow> string" where
  "charBefore_of node =
     (case node of
        Some (TextNode t) \<Rightarrow> if t \<noteq> [] then [last t] else []
      | _ \<Rightarrow> [])"

definition charAfter_of :: "Node option \<Rightarrow> string" where
  "charAfter_of node =
     (case node of
        Some (TextNode t) \<Rightarrow> if t \<noteq> [] then [hd t] else []
      | _ \<Rightarrow> [])"

definition shouldAutoClose :: "EditorState \<Rightarrow> string \<Rightarrow> bool" where
  "shouldAutoClose state openChar =
     (if \<not> sel_empty state then True
      else if isQuote (JStr openChar) then
        (let charBefore = charBefore_of (nodeBefore state);
             charAfter = charAfter_of (nodeAfter state)
         in \<not> isAdjacentToWordChar charBefore charAfter)
      else True)"

section \<open>lib/autopairs.ts (packages/prosemirror-autopairs)\<close>

text \<open>
  A command takes the state and whether a \<open>dispatch\<close> function was passed. The edits
  of the two handlers, as the transactions they build:
\<close>

definition wrapTransaction :: "int \<Rightarrow> int \<Rightarrow> string \<Rightarrow> Transaction" where
  "wrapTransaction a b wrappedText =
     \<lparr> steps = [ReplaceWith a b wrappedText],
       selectionNear = Some (a + int (length wrappedText)) \<rparr>"

definition skipTransaction :: "int \<Rightarrow> Transaction" where
  "skipTransaction a = \<lparr> steps = [], selectionNear = Some (a + 1) \<rparr>"

definition insertTransaction :: "int \<Rightarrow> string \<Rightarrow> Transaction" where
  "insertTransaction a insertText =
     \<lparr> steps = [InsertText insertText a], selectionNear = Some (a + 1) \<rparr>"

definition deleteTransaction :: "int \<Rightarrow> Transaction" where
  "deleteTransaction pos = \<lparr> steps = [Delete (pos - 1) (pos + 1)], selectionNear = None \<rparr>"

definition dispatched :: "bool \<Rightarrow> Transaction \<Rightarrow> bool \<times> Transaction option" where
  "dispatched dispatch tr = (True, if dispatch then Some tr else None)"

definition unhandled :: "bool \<times> Transaction option" where
  "unhandled = (False, None)"

definition createAutopairInputHandler :: "jsval \<Rightarrow> Command" where
  "createAutopairInputHandler ch state dispatch =
     (if \<not> isMatchingCharacter ch then unhandled
      else
        (case ch of
           JStr c \<Rightarrow>
             (let isOpeningChar' = isOpeningCharacter ch;
                  isClosingChar' = isClosingCharacter ch;
                  closingChar = getClosingCharacter c
              in if \<not> sel_empty state then
                   (if \<not> isOpeningChar' \<or> \<not> isClosingChar' then unhandled
                    else
                      (let selectedText = doc_textBetween state (sel_from state) (sel_to state);
                           wrappedText = js_concat_lookup (c @ selectedText) closingChar
                       in dispatched dispatch
                            (wrapTransaction (sel_from state) (sel_to state) wrappedText)))
                 else if isClosingChar' \<and> shouldSkipClosing state c then
                   dispatched dispatch (skipTransaction (sel_from state))
                 else if isOpeningChar' \<and> shouldAutoClose state c then
                   (let insertText = js_concat_lookup c closingChar
                    in dispatched dispatch (insertTransaction (sel_from state) insertText))
                 else unhandled)
         | _ \<Rightarrow> unhandled))"

definition createBackspaceInputHandler :: Command where
  "createBackspaceInputHandler state dispatch =
     (if \<not> sel_empty state then unhandled
      else
        (case (nodeBefore state, nodeAfter state) of
           (Some (TextNode beforeText), Some (TextNode afterText)) \<Rightarrow>
             (let charBefore = js_index beforeText (int (length beforeText) - 1);
                  charAfter = js_index afterText 0
              in if isMatchingPair charBefore charAfter then
                   dispatched dispatch (deleteTransaction (sel_from state))
                 else unhandled)
         | _ \<Rightarrow> unhandled))"

text \<open>
  The key bindings: an object from characters and key names to commands. The handler
  of each enabled character is written first, the one of \<open>Backspace\<close> last.
\<close>

definition buildKeyBindings :: "AutopairsOptions \<Rightarrow> (string \<times> Command) list" where
  "buildKeyBindings options =
     (let chars = getEnabledAutopairChars options;
          mergeAutopairCharHandler =
            (\<lambda>c bindings. obj_set c (createAutopairInputHandler (JStr c)) bindings)
      in obj_set BACKSPACE createBackspaceInputHandler (fold mergeAutopairCharHandler chars []))"

section \<open>lib/autopairs.ts (src)\<close>

text \<open>
  The older copy of the character handler, on lib/chars.ts. Its lib/utils.ts has the
  text of the one above, with \<open>isQuoteChar\<close> for \<open>isQuote\<close>.
\<close>

definition truthy :: "string option \<Rightarrow> bool" where
  "truthy v = (case v of None \<Rightarrow> False | Some s \<Rightarrow> s \<noteq> [])"

definition createAutopairCommandForChar :: "jsval \<Rightarrow> Command" where
  "createAutopairCommandForChar ch state dispatch =
     (if \<not> isAutopairChar ch then unhandled
      else
        (case ch of
           JStr c \<Rightarrow>
             (if \<not> sel_empty state then
                (if \<not> isOpeningChar ch then unhandled
                 else
                   (let closingChar = findClosingMatch c
                    in if \<not> truthy closingChar then unhandled
                       else
                         (let selectedText = doc_textBetween state (sel_from state) (sel_to state);
                              wrappedText = js_concat_lookup (c @ selectedText) closingChar
                          in dispatched dispatch
                               (wrapTransaction (sel_from state) (sel_to state) wrappedText))))
              else if isClosingChar ch \<and> shouldSkipClosing state c then
                dispatched dispatch (skipTransaction (sel_from state))
              else if isOpeningChar ch \<and> shouldAutoClose state c then
                (let closingChar = findClosingMatch c;
                     insertText = js_concat_lookup c closingChar
                 in dispatched dispatch (insertTransaction (sel_from state) insertText))
              else unhandled)
         | _ \<Rightarrow> unhandled))"

section \<open>Evaluation rules\<close>

lemmas char_defs =
  Quote_Double_def Quote_Single_def
  OpeningBracket_Round_def OpeningBracket_Square_def
  OpeningBracket_Curly_def OpeningBracket_Angle_def
  ClosingBracket_Round_def ClosingBracket_Square_def
  ClosingBracket_Curly_def ClosingBracket_Angle_def

lemmas table_defs =
  OPEN_CLOSE_MAPPING_def ALL_OPENING_CHARS_def ALL_CLOSING_CHARS_def ALL_AUTOPAIR_CHARS_def
  AUTOPAIR_CHAR_MAP_def chars_ALL_AUTOPAIR_CHARS_def AUTOPAIR_CHAR_GROUPS_def

lemmas pairs_defs =
  isQuote_def isOpeningCharacter_def isClosingCharacter_def isMatchingCharacter_def
  getClosingCharacter_def isMatchingPair_def

lemmas chars_module_defs =
  isQuoteChar_def isOpeningChar_def isClosingChar_def isAutopairChar_def
  findClosingMatch_def chars_isMatchingPair_def

lemmas utils_defs =
  isTextNode_def wordCharRegex_test_def isAdjacentToWordChar_def startsWith_def
  shouldSkipClosing_def charBefore_of_def charAfter_of_def shouldAutoClose_def

lemmas edit_defs =
  wrapTransaction_def skipTransaction_def insertTransaction_def deleteTransaction_def
  dispatched_def unhandled_def

section \<open>The character tables\<close>

lemma isOpeningCharacter_iff:
  "isOpeningCharacter v \<longleftrightarrow>
     v \<in> JStr ` {''('', ''['', ''{'', ''<'', Quote_Double, Quote_Single}"
  by (cases v) (auto simp: isOpeningCharacter_def table_defs char_defs)

lemma isClosingCharacter_iff:
  "isClosingCharacter v \<longleftrightarrow>
     v \<in> JStr ` {'')'', '']'', ''}'', ''>'', Quote_Double, Quote_Single}"
  by (cases v) (auto simp: isClosingCharacter_def table_defs char_defs)

lemma isMatchingCharacter_iff:
  "isMatchingCharacter v \<longleftrightarrow> isOpeningCharacter v \<or> isClosingCharacter v"
  by (cases v)
    (auto simp: isMatchingCharacter_def isOpeningCharacter_def isClosingCharacter_def
      ALL_AUTOPAIR_CHARS_def)

lemma opening_and_closing_iff_quote:
  "isOpeningCharacter v \<and> isClosingCharacter v \<longleftrightarrow> isQuote v"
  unfolding isOpeningCharacter_iff isClosingCharacter_iff
  by (auto simp: isQuote_def char_defs)

lemma getClosingCharacter_opening:
  assumes "isOpeningCharacter (JStr c)"
  shows "\<exists>cl. getClosingCharacter c = Some cl \<and> length cl = 1 \<and> length c = 1 \<and>
              (c, cl) \<in> set OPEN_CLOSE_MAPPING"
  using assms unfolding isOpeningCharacter_iff
  by (auto simp: getClosingCharacter_def table_defs char_defs)

lemma getClosingCharacter_quote:
  "isQuote (JStr c) \<Longrightarrow> getClosingCharacter c = Some c"
  by (auto simp: isQuote_def getClosingCharacter_def table_defs char_defs)

lemma closing_is_one_code_unit:
  "isClosingCharacter (JStr c) \<Longrightarrow> length c = 1"
  unfolding isClosingCharacter_iff by (auto simp: char_defs)

lemma isMatchingPair_iff:
  "isMatchingPair (JStr a) (JStr b) \<longleftrightarrow> (a, b) \<in> set OPEN_CLOSE_MAPPING"
  by (auto simp: pairs_defs table_defs char_defs Let_def)

lemma isMatchingPair_strings:
  "isMatchingPair x y \<Longrightarrow> \<exists>a b. x = JStr a \<and> y = JStr b"
  by (cases x; cases y) (auto simp: pairs_defs Let_def)

lemma isMatchingPair_undefined:
  "\<not> isMatchingPair JUndefined y" "\<not> isMatchingPair x JUndefined"
  using isMatchingPair_strings by blast+

lemma js_index_last:
  "js_index b (int (length b) - 1) = (if b = [] then JUndefined else JStr [last b])"
  by (cases b rule: rev_cases) (auto simp: js_index_def nth_append)

lemma js_index_first:
  "js_index a 0 = (if a = [] then JUndefined else JStr [hd a])"
  by (cases a) (auto simp: js_index_def)

text \<open>The class \<open>\w\<close>, character by character.\<close>

lemma isWordChar_iff:
  "isWordChar c \<longleftrightarrow>
     c \<in> set ''abcdefghijklmnopqrstuvwxyzABCDEFGHIJKLMNOPQRSTUVWXYZ0123456789_''"
proof
  assume "c \<in> set ''abcdefghijklmnopqrstuvwxyzABCDEFGHIJKLMNOPQRSTUVWXYZ0123456789_''"
  then show "isWordChar c"
    by (auto simp: isWordChar_def)
next
  assume w: "isWordChar c"
  define n where "n = (of_char c :: nat)"
  have h: "n \<in> {48..<58} \<union> {65..<91} \<union> set [95] \<union> {97..<123}"
    using w by (auto simp: isWordChar_def n_def Let_def)
  have "n \<in> set ([48..<58] @ [65..<91] @ [95] @ [97..<123])"
    unfolding set_append set_upt using h by blast
  then have "n \<in> (of_char `
      set ''abcdefghijklmnopqrstuvwxyzABCDEFGHIJKLMNOPQRSTUVWXYZ0123456789_'' :: nat set)"
    by (simp add: upt_rec) blast
  then obtain c' where
    c': "c' \<in> set ''abcdefghijklmnopqrstuvwxyzABCDEFGHIJKLMNOPQRSTUVWXYZ0123456789_''"
    and eq: "(of_char c :: nat) = of_char c'"
    unfolding n_def by blast
  from eq have "c = c'" by simp
  then show "c \<in> set ''abcdefghijklmnopqrstuvwxyzABCDEFGHIJKLMNOPQRSTUVWXYZ0123456789_''"
    using c' by simp
qed

lemma wordCharRegex_test_single:
  "wordCharRegex_test [c] = isWordChar c" "\<not> wordCharRegex_test []"
  by (simp_all add: wordCharRegex_test_def)

section \<open>Objects\<close>

lemma map_of_obj_set: "map_of (obj_set k v obj) = (map_of obj)(k \<mapsto> v)"
  by (induction obj) (auto simp: fun_eq_iff)

lemma keys_obj_set: "k \<in> fst ` set obj \<Longrightarrow> map fst (obj_set k v obj) = map fst obj"
  by (induction obj) force+

lemma keys_spread:
  "fst ` set ext \<subseteq> fst ` set base \<Longrightarrow> map fst (spread base ext) = map fst base"
proof (induction ext arbitrary: base)
  case Nil
  then show ?case by (simp add: spread_def)
next
  case (Cons e ext)
  obtain k v where e: "e = (k, v)" by (cases e)
  have k: "k \<in> fst ` set base" using Cons.prems e by auto
  have keys: "map fst (obj_set k v base) = map fst base" using k by (rule keys_obj_set)
  have "fst ` set ext \<subseteq> fst ` set (obj_set k v base)"
    using Cons.prems keys
    by (metis (no_types, lifting) list.set_map set_subset_Cons subset_trans image_mono)
  then have "map fst (spread (obj_set k v base) ext) = map fst (obj_set k v base)"
    by (rule Cons.IH)
  then show ?case using keys e by (simp add: spread_def)
qed

lemma map_of_spread:
  "distinct (map fst ext) \<Longrightarrow>
   map_of (spread base ext) k =
     (case map_of ext k of Some v \<Rightarrow> Some v | None \<Rightarrow> map_of base k)"
proof (induction ext arbitrary: base)
  case Nil
  then show ?case by (simp add: spread_def)
next
  case (Cons e ext)
  obtain k' v' where e: "e = (k', v')" by (cases e)
  have d: "distinct (map fst ext)" and nin: "k' \<notin> fst ` set ext" using Cons.prems e by auto
  have none: "map_of ext k' = None" using nin by (simp add: map_of_eq_None_iff)
  have "map_of (spread (obj_set k' v' base) ext) k =
          (case map_of ext k of Some v \<Rightarrow> Some v | None \<Rightarrow> map_of (obj_set k' v' base) k)"
    using d by (rule Cons.IH)
  then show ?case using e none
    by (auto simp: spread_def map_of_obj_set split: option.splits)
qed

lemma entries_by_keys:
  assumes "distinct (map fst obj)"
    and "\<And>k. k \<in> fst ` set obj \<Longrightarrow> map_of obj k = Some (f k)"
  shows "obj = map (\<lambda>k. (k, f k)) (map fst obj)"
  using assms
proof (induction obj)
  case Nil
  then show ?case by simp
next
  case (Cons e obj)
  obtain k v where e: "e = (k, v)" by (cases e)
  have nin: "k \<notin> fst ` set obj" and d: "distinct (map fst obj)"
    using Cons.prems(1) e by auto
  have "map_of (e # obj) k = Some (f k)" using Cons.prems(2)[of k] e by simp
  then have v: "v = f k" using e by simp
  have "map_of obj k' = Some (f k')" if "k' \<in> fst ` set obj" for k'
  proof -
    have "k' \<noteq> k" using that nin by blast
    moreover have "map_of (e # obj) k' = Some (f k')" using Cons.prems(2)[of k'] that by simp
    ultimately show ?thesis using e by simp
  qed
  then have "obj = map (\<lambda>k. (k, f k)) (map fst obj)" using Cons.IH d by blast
  then show ?case using e v by simp
qed

section \<open>The active characters\<close>

lemma defaultConfig_keys:
  "map fst defaultConfig =
     [AngleBrackets, CurlyBrackets, RoundBrackets, SquareBrackets, DoubleQuotes, SingleQuotes]"
  by (simp add: defaultConfig_def)

lemma every_group_has_a_default: "g \<in> fst ` set defaultConfig"
  by (cases g) (simp_all add: defaultConfig_def)

lemma merged_config:
  assumes "distinct (map fst options)"
  shows "spread defaultConfig options =
           map (\<lambda>g. (g, map_of options g \<noteq> Some False)) (map fst defaultConfig)"
proof -
  have "fst ` set options \<subseteq> fst ` set defaultConfig"
    using every_group_has_a_default by blast
  then have keys: "map fst (spread defaultConfig options) = map fst defaultConfig"
    by (rule keys_spread)
  have dist: "distinct (map fst (spread defaultConfig options))"
    unfolding keys by (simp add: defaultConfig_def)
  have dflt: "map_of defaultConfig g = Some True" for g
    by (cases g) (simp_all add: defaultConfig_def)
  have val: "map_of (spread defaultConfig options) g = Some (map_of options g \<noteq> Some False)"
    for g
    using map_of_spread[OF assms, of defaultConfig g] dflt[of g]
    by (auto split: option.splits)
  show ?thesis
    using entries_by_keys[OF dist, of "\<lambda>g. map_of options g \<noteq> Some False"] val
    unfolding keys by blast
qed

text \<open>The characters come in the order of the default configuration's groups.\<close>

lemma getEnabledAutopairChars_eq:
  assumes "distinct (map fst options)"
  shows "getEnabledAutopairChars options =
           concat (map AUTOPAIR_GROUPS
             (filter (\<lambda>g. map_of options g \<noteq> Some False) (map fst defaultConfig)))"
  unfolding getEnabledAutopairChars_def merged_config[OF assms]
  by (simp add: filter_map comp_def split_def)

lemma chars_of_group_eq: "chars_of_group g = AUTOPAIR_GROUPS g"
  by (cases g) (simp_all add: chars_of_group_def AUTOPAIR_CHAR_GROUPS_def)

lemma groups_disjoint:
  "g \<noteq> g' \<Longrightarrow> set (AUTOPAIR_GROUPS g) \<inter> set (AUTOPAIR_GROUPS g') = {}"
  by (cases g; cases g') (simp_all add: char_defs)

text \<open>
  Claim C1, as amended. The configuration is an object, so no group is named twice.
  \<open>getEnabledAutopairChars\<close> (packages) treats an absent group as enabled: it gives
  the characters of every group that is not explicitly false, and none of a group
  that is. \<open>resolveCharsToHandle\<close> (src) gives every character for the empty
  configuration and otherwise the characters of the groups explicitly true only.
\<close>

theorem active_characters_of_configuration:
  assumes "distinct (map fst options)"
  shows "set (getEnabledAutopairChars options) =
           (\<Union>g \<in> {g. map_of options g \<noteq> Some False}. set (AUTOPAIR_GROUPS g))
       \<and> (map_of options g = Some False \<longrightarrow>
            set (AUTOPAIR_GROUPS g) \<inter> set (getEnabledAutopairChars options) = {})
       \<and> set (resolveCharsToHandle options) =
           (if options = [] then set chars_ALL_AUTOPAIR_CHARS
            else (\<Union>g \<in> {g. map_of options g = Some True}. set (chars_of_group g)))"
proof -
  have a: "set (getEnabledAutopairChars options) =
           (\<Union>g \<in> {g. map_of options g \<noteq> Some False}. set (AUTOPAIR_GROUPS g))"
    unfolding getEnabledAutopairChars_eq[OF assms] using every_group_has_a_default by auto
  have b: "set (AUTOPAIR_GROUPS g) \<inter> set (getEnabledAutopairChars options) = {}"
    if off: "map_of options g = Some False"
  proof -
    have "set (AUTOPAIR_GROUPS g) \<inter> set (AUTOPAIR_GROUPS g') = {}"
      if "map_of options g' \<noteq> Some False" for g'
      using that off groups_disjoint[of g g'] by blast
    then show ?thesis unfolding a by blast
  qed
  have mem: "(g, True) \<in> set options \<longleftrightarrow> map_of options g = Some True" for g
    using assms by (simp add: map_of_eq_Some_iff)
  have c: "set (resolveCharsToHandle options) =
           (if options = [] then set chars_ALL_AUTOPAIR_CHARS
            else (\<Union>g \<in> {g. map_of options g = Some True}. set (chars_of_group g)))"
    by (auto simp: resolveCharsToHandle_def Let_def mem[symmetric])
  show ?thesis using a b c by blast
qed

theorem active_characters_of_configuration_witness:
  "distinct (map fst [(AngleBrackets, True), (DoubleQuotes, False)])
   \<and> set (getEnabledAutopairChars [(AngleBrackets, True), (DoubleQuotes, False)]) =
       (\<Union>g \<in> {g. map_of [(AngleBrackets, True), (DoubleQuotes, False)] g \<noteq> Some False}.
          set (AUTOPAIR_GROUPS g))
   \<and> set (AUTOPAIR_GROUPS DoubleQuotes) \<inter>
       set (getEnabledAutopairChars [(AngleBrackets, True), (DoubleQuotes, False)]) = {}
   \<and> set (resolveCharsToHandle [(AngleBrackets, True), (DoubleQuotes, False)]) =
       (\<Union>g \<in> {g. map_of [(AngleBrackets, True), (DoubleQuotes, False)] g = Some True}.
          set (chars_of_group g))"
proof -
  let ?opts = "[(AngleBrackets, True), (DoubleQuotes, False)]"
  have d: "distinct (map fst ?opts)" by simp
  have off: "map_of ?opts DoubleQuotes = Some False" by simp
  have ne: "?opts \<noteq> []" by simp
  note th = active_characters_of_configuration [OF d, of DoubleQuotes]
  have a: "set (getEnabledAutopairChars ?opts) =
             (\<Union>g \<in> {g. map_of ?opts g \<noteq> Some False}. set (AUTOPAIR_GROUPS g))"
    using th by (rule conjunct1)
  have b: "set (AUTOPAIR_GROUPS DoubleQuotes) \<inter> set (getEnabledAutopairChars ?opts) = {}"
    using th off by blast
  have "set (resolveCharsToHandle ?opts) =
          (if ?opts = [] then set chars_ALL_AUTOPAIR_CHARS
           else (\<Union>g \<in> {g. map_of ?opts g = Some True}. set (chars_of_group g)))"
    using th by blast
  then have c: "set (resolveCharsToHandle ?opts) =
             (\<Union>g \<in> {g. map_of ?opts g = Some True}. set (chars_of_group g))"
    using ne by (simp only: if_False)
  show ?thesis using d a b c by blast
qed

text \<open>
  The claim as stated fails on \<open>resolveCharsToHandle\<close>: the configuration that names
  only \<open>angleBrackets: true\<close> does not name \<open>roundBrackets\<close>, and \<open>(\<close> is not among
  the resolved characters.
\<close>

theorem resolveCharsToHandle_absent_group_counterexample:
  "resolveCharsToHandle [(AngleBrackets, True)] = [OpeningBracket_Angle, ClosingBracket_Angle]
   \<and> map_of [(AngleBrackets, True)] RoundBrackets = None
   \<and> OpeningBracket_Round \<in> set (chars_of_group RoundBrackets)
   \<and> OpeningBracket_Round \<notin> set (resolveCharsToHandle [(AngleBrackets, True)])"
  by (simp add: resolveCharsToHandle_def chars_of_group_def AUTOPAIR_CHAR_GROUPS_def char_defs)

section \<open>The membership predicates\<close>

text \<open>
  Claim C3. The opening predicate holds exactly for the six opening characters and
  the closing predicate exactly for the six closing characters; a closing bracket
  is not opening and an opening bracket is not closing. The predicates of
  lib/pairs.ts are so (\<open>isOpeningCharacter_iff\<close>, \<open>isClosingCharacter_iff\<close> above);
  the ones of lib/chars.ts test the list of all pair characters, and accept the
  other side's brackets:
\<close>

theorem chars_isOpeningChar_accepts_closing:
  "isOpeningChar (JStr '')'') \<and> isClosingChar (JStr ''('')"
  by (simp add: isOpeningChar_def isClosingChar_def table_defs char_defs)

text \<open>
  What follows from it in the older character handler: \<open>)\<close> typed at an empty cursor
  that is not before a \<open>)\<close> counts as opening, has no closing match, and the text
  inserted is \<open>)\<close> followed by the word \<open>undefined\<close>.
\<close>

lemma createAutopairCommandForChar_closing_bracket:
  "createAutopairCommandForChar (JStr '')'') (paragraphState ''ab'' 2 2) True =
     (True, Some \<lparr> steps = [InsertText '')undefined'' 2], selectionNear = Some 3 \<rparr>)"
  by (simp add: createAutopairCommandForChar_def chars_module_defs table_defs char_defs
      paragraphState_def utils_defs pairs_defs edit_defs Let_def)

section \<open>Group resolution\<close>

lemma isCharGroup_iff:
  "isCharGroup v \<longleftrightarrow>
     (\<exists>s. v = JStr s \<and> (s \<in> range AutopairGroup_value \<or> s \<in> set Object_prototype_names))"
proof (cases v)
  case (JStr s)
  have "s \<in> set (map fst AUTOPAIR_CHAR_GROUPS) \<longleftrightarrow> s \<in> range AutopairGroup_value"
  proof
    assume "s \<in> set (map fst AUTOPAIR_CHAR_GROUPS)"
    then show "s \<in> range AutopairGroup_value"
      by (auto simp: AUTOPAIR_CHAR_GROUPS_def simp del: AutopairGroup_value.simps)
  next
    assume "s \<in> range AutopairGroup_value"
    then obtain g where "s = AutopairGroup_value g" by blast
    then show "s \<in> set (map fst AUTOPAIR_CHAR_GROUPS)"
      by (cases g) (simp_all add: AUTOPAIR_CHAR_GROUPS_def)
  qed
  then show ?thesis using JStr by (simp add: js_in_def)
qed simp_all

lemma resolveCharGroup_of_group:
  "resolveCharGroup (JStr (AutopairGroup_value g)) = Inr (GroupChars (AUTOPAIR_GROUPS g))"
  by (cases g) (simp_all add: resolveCharGroup_def js_in_def AUTOPAIR_CHAR_GROUPS_def)

lemma resolveCharGroup_raises_iff:
  "resolveCharGroup v = Inl (InvalidGroupError v) \<longleftrightarrow>
     \<not> (\<exists>s. v = JStr s \<and> (s \<in> range AutopairGroup_value \<or> s \<in> set Object_prototype_names))"
  unfolding isCharGroup_iff[symmetric] by (simp add: resolveCharGroup_def)

text \<open>
  Claim C9. Group resolution raises the configuration error exactly when its
  argument is not one of the six group names. \<open>resolveCharGroup\<close> tests the name
  with the operator \<open>in\<close>, which also finds the members an object inherits: for
  such a name it raises nothing and returns the inherited member.
\<close>

theorem resolveCharGroup_inherited_name:
  "resolveCharGroup (JStr ''toString'') = Inr (InheritedMember ''toString'')"
  by (simp add: resolveCharGroup_def js_in_def AUTOPAIR_CHAR_GROUPS_def Object_prototype_names_def)

section \<open>The character handler\<close>

text \<open>A value that is not a string is not a pair character: the handler leaves it to the host.\<close>

lemma createAutopairInputHandler_not_a_string:
  "\<not> isString v \<Longrightarrow> createAutopairInputHandler v st d = (False, None)"
  by (simp add: createAutopairInputHandler_def isMatchingCharacter_def unhandled_def)

lemma createAutopairCommandForChar_not_a_string:
  "\<not> isString v \<Longrightarrow> createAutopairCommandForChar v st d = (False, None)"
  by (simp add: createAutopairCommandForChar_def isAutopairChar_def unhandled_def)

lemma isTextNode_iff: "isTextNode node \<longleftrightarrow> (\<exists>t. node = Some (TextNode t))"
  by (auto simp: isTextNode_def split: option.splits Node.splits)

subsection \<open>Wrapping a selection\<close>

text \<open>
  Claim C2. With \<open>wrap me\<close> selected (positions 1 to 8 of the paragraph), typing
  \<open>(\<close> replaces the selection with \<open>(wrap me)\<close> and puts the cursor after it. The
  handler of lib/autopairs.ts (packages) wraps only when the character is opening
  and closing at once, which only the two quotes are; for every other character,
  \<open>(\<close> among them, it dispatches nothing and answers unhandled.
\<close>

theorem createAutopairInputHandler_wraps_quotes_only:
  assumes "\<not> sel_empty st"
  shows "createAutopairInputHandler (JStr c) st d =
     (if isQuote (JStr c)
      then (True,
            if d then Some \<lparr> steps = [ReplaceWith (sel_from st) (sel_to st)
                                       (c @ doc_textBetween st (sel_from st) (sel_to st) @ c)],
                              selectionNear = Some (sel_from st +
                                int (length (c @ doc_textBetween st (sel_from st) (sel_to st) @ c))) \<rparr>
            else None)
      else (False, None))"
proof (cases "isQuote (JStr c)")
  case True
  then have oc: "isOpeningCharacter (JStr c)" "isClosingCharacter (JStr c)"
    using opening_and_closing_iff_quote by blast+
  then have m: "isMatchingCharacter (JStr c)" by (simp add: isMatchingCharacter_iff)
  show ?thesis using True assms oc m getClosingCharacter_quote[OF True]
    by (simp add: createAutopairInputHandler_def Let_def dispatched_def wrapTransaction_def)
next
  case False
  then have "\<not> isOpeningCharacter (JStr c) \<or> \<not> isClosingCharacter (JStr c)"
    using opening_and_closing_iff_quote by blast
  then show ?thesis using False assms
    by (auto simp add: createAutopairInputHandler_def Let_def unhandled_def)
qed

theorem createAutopairInputHandler_round_not_wrapped:
  "\<not> sel_empty (paragraphState ''wrap me'' 1 8)
   \<and> doc_textBetween (paragraphState ''wrap me'' 1 8) 1 8 = ''wrap me''
   \<and> createAutopairInputHandler (JStr ''('') (paragraphState ''wrap me'' 1 8) True = (False, None)"
proof -
  have ne: "\<not> sel_empty (paragraphState ''wrap me'' 1 8)"
    by (simp add: paragraphState_def)
  have nq: "\<not> isQuote (JStr ''('')"
    by (simp add: isQuote_def char_defs)
  have "createAutopairInputHandler (JStr ''('') (paragraphState ''wrap me'' 1 8) True = (False, None)"
    using createAutopairInputHandler_wraps_quotes_only [OF ne, of "''(''" True] nq
    by (simp only: if_False)
  then show ?thesis using ne by (simp add: paragraphState_def)
qed

text \<open>The older copy tests the closing match instead, and wraps.\<close>

lemma createAutopairCommandForChar_wraps_round:
  "createAutopairCommandForChar (JStr ''('') (paragraphState ''wrap me'' 1 8) True =
     (True, Some \<lparr> steps = [ReplaceWith 1 8 ''(wrap me)''], selectionNear = Some 10 \<rparr>)"
  by (simp add: createAutopairCommandForChar_def chars_module_defs table_defs char_defs
      paragraphState_def truthy_def edit_defs Let_def)

subsection \<open>Skipping over a closing character\<close>

text \<open>
  Claim C8. At an empty cursor whose next character is the typed closing character,
  the handler dispatches a transaction with no step, which only sets the selection
  one position forward, and answers handled.
\<close>

theorem skip_over_moves_cursor_only:
  assumes "sel_empty st" and "isClosingCharacter (JStr c)"
    and "nodeAfter st = Some (TextNode t)" and "take 1 t = c"
  shows "createAutopairInputHandler (JStr c) st d =
           (True, if d then Some \<lparr> steps = [], selectionNear = Some (sel_from st + 1) \<rparr>
                  else None)"
proof -
  have m: "isMatchingCharacter (JStr c)" using assms(2) by (simp add: isMatchingCharacter_iff)
  have len: "length c = 1" using assms(2) by (rule closing_is_one_code_unit)
  have "shouldSkipClosing st c" using assms len
    by (auto simp: shouldSkipClosing_def startsWith_def)
  then show ?thesis using assms m
    by (simp add: createAutopairInputHandler_def Let_def dispatched_def skipTransaction_def)
qed

theorem skip_over_moves_cursor_only_witness:
  "sel_empty (paragraphState ''()'' 2 2)
   \<and> isClosingCharacter (JStr '')'')
   \<and> nodeAfter (paragraphState ''()'' 2 2) = Some (TextNode '')'')
   \<and> take 1 '')'' = '')''
   \<and> createAutopairInputHandler (JStr '')'') (paragraphState ''()'' 2 2) True =
       (True, Some \<lparr> steps = [], selectionNear = Some 3 \<rparr>)"
proof -
  have e: "sel_empty (paragraphState ''()'' 2 2)" by (simp add: paragraphState_def)
  have c: "isClosingCharacter (JStr '')'')"
    by (simp add: isClosingCharacter_def table_defs char_defs)
  have n: "nodeAfter (paragraphState ''()'' 2 2) = Some (TextNode '')'')"
    by (simp add: paragraphState_def)
  have t: "take 1 '')'' = '')''" by simp
  have "createAutopairInputHandler (JStr '')'') (paragraphState ''()'' 2 2) True =
       (True, Some \<lparr> steps = [], selectionNear = Some 3 \<rparr>)"
    using skip_over_moves_cursor_only [OF e c n t, of True] by (simp add: paragraphState_def)
  then show ?thesis using e c n t by blast
qed

subsection \<open>Closing an opening character\<close>

text \<open>
  Claim C7, as amended. At an empty cursor, for an opening character that the
  auto-close check permits and that is not skipped over (it is not a quote directly
  before the same quote), the handler inserts the character and its closing match,
  two code units, at the cursor and sets the selection one position after it.
\<close>

theorem auto_close_inserts_pair_unless_skipped:
  assumes "sel_empty st" and "isOpeningCharacter (JStr c)" and "shouldAutoClose st c"
    and "\<not> (isClosingCharacter (JStr c) \<and> shouldSkipClosing st c)"
  shows "\<exists>cl. getClosingCharacter c = Some cl \<and> length (c @ cl) = 2 \<and>
           createAutopairInputHandler (JStr c) st d =
             (True, if d then Some \<lparr> steps = [InsertText (c @ cl) (sel_from st)],
                                    selectionNear = Some (sel_from st + 1) \<rparr>
                    else None)"
proof -
  from getClosingCharacter_opening[OF assms(2)] obtain cl where
    cl: "getClosingCharacter c = Some cl" "length cl = 1" "length c = 1" by blast
  have m: "isMatchingCharacter (JStr c)" using assms(2) by (simp add: isMatchingCharacter_iff)
  have "createAutopairInputHandler (JStr c) st d =
             (True, if d then Some \<lparr> steps = [InsertText (c @ cl) (sel_from st)],
                                    selectionNear = Some (sel_from st + 1) \<rparr>
                    else None)"
    using assms m cl
    by (auto simp add: createAutopairInputHandler_def Let_def dispatched_def insertTransaction_def)
  then show ?thesis using cl by auto
qed

theorem auto_close_inserts_pair_unless_skipped_witness:
  "sel_empty (paragraphState [] 1 1)
   \<and> isOpeningCharacter (JStr ''('')
   \<and> shouldAutoClose (paragraphState [] 1 1) ''(''
   \<and> \<not> (isClosingCharacter (JStr ''('') \<and> shouldSkipClosing (paragraphState [] 1 1) ''('')
   \<and> createAutopairInputHandler (JStr ''('') (paragraphState [] 1 1) True =
       (True, Some \<lparr> steps = [InsertText ''()'' 1], selectionNear = Some 2 \<rparr>)"
proof -
  have e: "sel_empty (paragraphState [] 1 1)" by (simp add: paragraphState_def)
  have opn: "isOpeningCharacter (JStr ''('')"
    by (simp add: isOpeningCharacter_def table_defs char_defs)
  have a: "shouldAutoClose (paragraphState [] 1 1) ''(''"
    by (simp add: shouldAutoClose_def paragraphState_def isQuote_def char_defs)
  have s: "\<not> (isClosingCharacter (JStr ''('') \<and> shouldSkipClosing (paragraphState [] 1 1) ''('')"
    by (simp add: isClosingCharacter_def table_defs char_defs)
  have cl: "getClosingCharacter ''('' = Some '')''"
    by (simp add: getClosingCharacter_def table_defs char_defs)
  have "createAutopairInputHandler (JStr ''('') (paragraphState [] 1 1) True =
       (True, Some \<lparr> steps = [InsertText ''()'' 1], selectionNear = Some 2 \<rparr>)"
    using auto_close_inserts_pair_unless_skipped [OF e opn a s, of True] cl
    by (auto simp: paragraphState_def)
  then show ?thesis using e opn a s by blast
qed

text \<open>
  The claim as stated fails for a quote: \<open>'\<close> typed at an empty cursor directly
  before a \<open>'\<close> is opening and passes the auto-close check, and the handler skips
  over the existing quote and inserts nothing.
\<close>

theorem auto_close_quote_before_quote_counterexample:
  "sel_empty (paragraphState [CHR 0x27] 1 1)
   \<and> isOpeningCharacter (JStr Quote_Single)
   \<and> shouldAutoClose (paragraphState [CHR 0x27] 1 1) Quote_Single
   \<and> createAutopairInputHandler (JStr Quote_Single) (paragraphState [CHR 0x27] 1 1) True
       = (True, Some \<lparr> steps = [], selectionNear = Some 2 \<rparr>)"
  by (simp add: paragraphState_def createAutopairInputHandler_def pairs_defs table_defs
      char_defs utils_defs edit_defs isWordChar_def Let_def)

subsection \<open>The order of the checks\<close>

text \<open>
  Claim C4, as amended. The handler tries reject-unknown, wrap, skip-over and
  auto-close in this order and the first check that applies decides; otherwise it
  does nothing. An unknown character is neither opening nor closing. With a
  selection that is not empty the skip check fails, and the outcome is a wrap
  over the selection or none. At an empty cursor skip-over is taken whenever its
  guard holds, auto-close only when the skip-over guard fails. The guards of
  skip-over and auto-close are not exclusive: both can hold, and then the
  character is a quote and the handler skips.
\<close>

theorem handler_checks_in_order:
  "(\<not> isMatchingCharacter ch \<longrightarrow>
      \<not> isOpeningCharacter ch \<and> \<not> isClosingCharacter ch \<and>
      createAutopairInputHandler ch st d = (False, None))
   \<and> (\<not> sel_empty st \<longrightarrow>
        \<not> shouldSkipClosing st c \<and>
        (createAutopairInputHandler (JStr c) st d = (False, None) \<or>
         (\<exists>w. createAutopairInputHandler (JStr c) st d =
                 dispatched d (wrapTransaction (sel_from st) (sel_to st) w))))
   \<and> (sel_empty st \<and> isClosingCharacter (JStr c) \<and> shouldSkipClosing st c \<longrightarrow>
        createAutopairInputHandler (JStr c) st d = dispatched d (skipTransaction (sel_from st)))
   \<and> (sel_empty st \<and> \<not> (isClosingCharacter (JStr c) \<and> shouldSkipClosing st c) \<and>
       isOpeningCharacter (JStr c) \<and> shouldAutoClose st c \<longrightarrow>
        (\<exists>cl. getClosingCharacter c = Some cl \<and>
           createAutopairInputHandler (JStr c) st d =
             dispatched d (insertTransaction (sel_from st) (c @ cl))))
   \<and> (sel_empty st \<and> \<not> (isClosingCharacter (JStr c) \<and> shouldSkipClosing st c) \<and>
       \<not> (isOpeningCharacter (JStr c) \<and> shouldAutoClose st c) \<longrightarrow>
        createAutopairInputHandler (JStr c) st d = (False, None))
   \<and> (isClosingCharacter (JStr c) \<and> shouldSkipClosing st c \<and>
       isOpeningCharacter (JStr c) \<and> shouldAutoClose st c \<longrightarrow> isQuote (JStr c))"
proof -
  have r: "\<not> isOpeningCharacter ch \<and> \<not> isClosingCharacter ch \<and>
      createAutopairInputHandler ch st d = (False, None)" if "\<not> isMatchingCharacter ch"
    using that by (simp add: isMatchingCharacter_iff createAutopairInputHandler_def unhandled_def)
  have w: "\<not> shouldSkipClosing st c \<and>
        (createAutopairInputHandler (JStr c) st d = (False, None) \<or>
         (\<exists>w. createAutopairInputHandler (JStr c) st d =
                 dispatched d (wrapTransaction (sel_from st) (sel_to st) w)))"
    if "\<not> sel_empty st"
    using that
    by (auto simp: createAutopairInputHandler_def Let_def shouldSkipClosing_def unhandled_def)
  have s: "createAutopairInputHandler (JStr c) st d = dispatched d (skipTransaction (sel_from st))"
    if "sel_empty st" "isClosingCharacter (JStr c)" "shouldSkipClosing st c"
    using that by (simp add: createAutopairInputHandler_def isMatchingCharacter_iff Let_def)
  have a: "\<exists>cl. getClosingCharacter c = Some cl \<and>
           createAutopairInputHandler (JStr c) st d =
             dispatched d (insertTransaction (sel_from st) (c @ cl))"
    if e: "sel_empty st" and ns: "\<not> (isClosingCharacter (JStr c) \<and> shouldSkipClosing st c)"
      and opn: "isOpeningCharacter (JStr c)" and ac: "shouldAutoClose st c"
  proof -
    from getClosingCharacter_opening[OF opn] obtain cl where
      cl: "getClosingCharacter c = Some cl" by blast
    have m: "isMatchingCharacter (JStr c)" using opn by (simp add: isMatchingCharacter_iff)
    have "createAutopairInputHandler (JStr c) st d =
             dispatched d (insertTransaction (sel_from st) (c @ cl))"
      using e ns opn ac m cl by (auto simp add: createAutopairInputHandler_def Let_def)
    then show ?thesis using cl by blast
  qed
  have n: "createAutopairInputHandler (JStr c) st d = (False, None)"
    if "sel_empty st" "\<not> (isClosingCharacter (JStr c) \<and> shouldSkipClosing st c)"
       "\<not> (isOpeningCharacter (JStr c) \<and> shouldAutoClose st c)"
    using that by (auto simp: createAutopairInputHandler_def Let_def unhandled_def)
  have q: "isQuote (JStr c)" if "isClosingCharacter (JStr c)" "isOpeningCharacter (JStr c)"
    using that opening_and_closing_iff_quote by blast
  show ?thesis using r w s a n q by blast
qed

theorem handler_checks_in_order_witness:
  "\<not> isMatchingCharacter (JStr ''x'')
   \<and> createAutopairInputHandler (JStr ''x'') (paragraphState ''ab'' 2 2) True = (False, None)
   \<and> \<not> sel_empty (paragraphState ''wrap me'' 1 8)
   \<and> \<not> shouldSkipClosing (paragraphState ''wrap me'' 1 8) ''w''
   \<and> sel_empty (paragraphState ''()'' 2 2)
   \<and> isClosingCharacter (JStr '')'')
   \<and> shouldSkipClosing (paragraphState ''()'' 2 2) '')''
   \<and> createAutopairInputHandler (JStr '')'') (paragraphState ''()'' 2 2) True =
       dispatched True (skipTransaction 2)
   \<and> sel_empty (paragraphState ''ab'' 2 2)
   \<and> isOpeningCharacter (JStr ''['')
   \<and> shouldAutoClose (paragraphState ''ab'' 2 2) ''[''
   \<and> createAutopairInputHandler (JStr ''['') (paragraphState ''ab'' 2 2) True =
       dispatched True (insertTransaction 2 ''[]'')
   \<and> \<not> isOpeningCharacter (JStr '']'')
   \<and> \<not> shouldSkipClosing (paragraphState ''ab'' 2 2) '']''
   \<and> createAutopairInputHandler (JStr '']'') (paragraphState ''ab'' 2 2) True = (False, None)
   \<and> isClosingCharacter (JStr Quote_Double)
   \<and> shouldSkipClosing (paragraphState [CHR 0x22] 1 1) Quote_Double
   \<and> isOpeningCharacter (JStr Quote_Double)
   \<and> shouldAutoClose (paragraphState [CHR 0x22] 1 1) Quote_Double
   \<and> isQuote (JStr Quote_Double)"
proof -
  let ?ab = "paragraphState ''ab'' 2 2"
  have x: "\<not> isMatchingCharacter (JStr ''x'')"
    by (simp add: isMatchingCharacter_def table_defs char_defs)
  have x': "createAutopairInputHandler (JStr ''x'') ?ab True = (False, None)"
    using handler_checks_in_order [of "JStr ''x''" ?ab True "''x''"] x by blast
  have w: "\<not> sel_empty (paragraphState ''wrap me'' 1 8)"
    by (simp add: paragraphState_def)
  have w': "\<not> shouldSkipClosing (paragraphState ''wrap me'' 1 8) ''w''"
    using handler_checks_in_order
      [of "JStr ''w''" "paragraphState ''wrap me'' 1 8" True "''w''"] w by blast
  have s: "sel_empty (paragraphState ''()'' 2 2)" "isClosingCharacter (JStr '')'')"
    "shouldSkipClosing (paragraphState ''()'' 2 2) '')''"
    by (simp_all add: paragraphState_def isClosingCharacter_def table_defs char_defs utils_defs)
  have s': "createAutopairInputHandler (JStr '')'') (paragraphState ''()'' 2 2) True =
       dispatched True (skipTransaction 2)"
    using handler_checks_in_order
      [of "JStr '')''" "paragraphState ''()'' 2 2" True "'')''"] s
    by (simp add: paragraphState_def)
  have a: "sel_empty ?ab" "isOpeningCharacter (JStr ''['')" "shouldAutoClose ?ab ''[''"
    "\<not> (isClosingCharacter (JStr ''['') \<and> shouldSkipClosing ?ab ''['')"
    "getClosingCharacter ''['' = Some '']''"
    by (simp_all add: paragraphState_def pairs_defs table_defs char_defs utils_defs)
  have "\<exists>cl. getClosingCharacter ''['' = Some cl \<and>
           createAutopairInputHandler (JStr ''['') ?ab True =
             dispatched True (insertTransaction (sel_from ?ab) (''['' @ cl))"
    using handler_checks_in_order [of "JStr ''[''" ?ab True "''[''"] a(1-4) by blast
  then have a': "createAutopairInputHandler (JStr ''['') ?ab True =
       dispatched True (insertTransaction 2 ''[]'')"
    using a(5) by (auto simp: paragraphState_def)
  have n: "\<not> isOpeningCharacter (JStr '']'')" "\<not> shouldSkipClosing ?ab '']''"
    by (simp_all add: paragraphState_def pairs_defs table_defs char_defs utils_defs)
  have n': "createAutopairInputHandler (JStr '']'') ?ab True = (False, None)"
    using handler_checks_in_order [of "JStr '']''" ?ab True "'']''"] a(1) n by blast
  have q: "isClosingCharacter (JStr Quote_Double)"
    "shouldSkipClosing (paragraphState [CHR 0x22] 1 1) Quote_Double"
    "isOpeningCharacter (JStr Quote_Double)"
    "shouldAutoClose (paragraphState [CHR 0x22] 1 1) Quote_Double"
    by (simp_all add: paragraphState_def pairs_defs table_defs char_defs utils_defs isWordChar_def)
  have q': "isQuote (JStr Quote_Double)"
    using handler_checks_in_order
      [of "JStr Quote_Double" "paragraphState [CHR 0x22] 1 1" True Quote_Double] q by blast
  show ?thesis using x x' w w' s s' a(1-3) a' n n' q q' by blast
qed

text \<open>
  The claim as stated fails: for \<open>"\<close> typed at the empty cursor before a \<open>"\<close> at the
  start of the paragraph the character is known, and the guard of skip-over and the
  guard of auto-close both hold.
\<close>

theorem handler_guards_not_exclusive_counterexample:
  "sel_empty (paragraphState [CHR 0x22] 1 1)
   \<and> isMatchingCharacter (JStr Quote_Double)
   \<and> isClosingCharacter (JStr Quote_Double)
   \<and> shouldSkipClosing (paragraphState [CHR 0x22] 1 1) Quote_Double
   \<and> isOpeningCharacter (JStr Quote_Double)
   \<and> shouldAutoClose (paragraphState [CHR 0x22] 1 1) Quote_Double"
  by (simp add: paragraphState_def pairs_defs table_defs char_defs utils_defs isWordChar_def)

section \<open>Quotes next to word characters\<close>

text \<open>
  Claim C5. For a quote typed at an empty cursor, auto-close is denied exactly when
  the last character of the text node before the cursor or the first character of
  the text node after it is a word character (\<open>isWordChar_iff\<close> lists them). A
  neighbour that is absent or not a text node gives no character: with none on
  either side the quote is closed.
\<close>

theorem quote_auto_close_denied_iff_word_neighbour:
  assumes "sel_empty st" and "isQuote (JStr q)"
  shows "(\<not> shouldAutoClose st q) =
           ((\<exists>t. nodeBefore st = Some (TextNode t) \<and> t \<noteq> [] \<and> isWordChar (last t)) \<or>
            (\<exists>t. nodeAfter st = Some (TextNode t) \<and> t \<noteq> [] \<and> isWordChar (hd t)))
       \<and> ((nodeBefore st = None \<or> nodeBefore st = Some OtherNode) \<and>
           (nodeAfter st = None \<or> nodeAfter st = Some OtherNode) \<longrightarrow> shouldAutoClose st q)"
  using assms
  by (auto simp: shouldAutoClose_def isAdjacentToWordChar_def charBefore_of_def charAfter_of_def
      wordCharRegex_test_single Let_def split: option.splits Node.splits)

theorem quote_auto_close_denied_iff_word_neighbour_witness:
  "sel_empty (paragraphState ''word'' 5 5)
   \<and> isQuote (JStr Quote_Double)
   \<and> nodeBefore (paragraphState ''word'' 5 5) = Some (TextNode ''word'')
   \<and> isWordChar (last ''word'')
   \<and> \<not> shouldAutoClose (paragraphState ''word'' 5 5) Quote_Double
   \<and> sel_empty (paragraphState [] 1 1)
   \<and> nodeBefore (paragraphState [] 1 1) = None
   \<and> nodeAfter (paragraphState [] 1 1) = None
   \<and> shouldAutoClose (paragraphState [] 1 1) Quote_Double"
proof -
  have e: "sel_empty (paragraphState ''word'' 5 5)" "sel_empty (paragraphState [] 1 1)"
    by (simp_all add: paragraphState_def)
  have q: "isQuote (JStr Quote_Double)" by (simp add: isQuote_def)
  have b: "nodeBefore (paragraphState ''word'' 5 5) = Some (TextNode ''word'')"
    "isWordChar (last ''word'')"
    by (simp_all add: paragraphState_def isWordChar_def)
  have n: "nodeBefore (paragraphState [] 1 1) = None" "nodeAfter (paragraphState [] 1 1) = None"
    by (simp_all add: paragraphState_def)
  have d: "\<not> shouldAutoClose (paragraphState ''word'' 5 5) Quote_Double"
    using quote_auto_close_denied_iff_word_neighbour [OF e(1) q] b by blast
  have p: "shouldAutoClose (paragraphState [] 1 1) Quote_Double"
    using quote_auto_close_denied_iff_word_neighbour [OF e(2) q] n by blast
  show ?thesis using e q b n d p by blast
qed

section \<open>The delete handler\<close>

text \<open>
  Claim C6. The delete handler deletes the range from one position before the
  cursor to one position after it when the selection is empty, the nodes before and
  after the cursor are text nodes, and the last character of the one and the first
  character of the other are a pair of the mapping; it is then handled. In every
  other case it dispatches nothing and answers unhandled.
\<close>

theorem paired_delete_outcome:
  "createBackspaceInputHandler st d =
     (if sel_empty st \<and>
         (\<exists>b a. nodeBefore st = Some (TextNode b) \<and> nodeAfter st = Some (TextNode a) \<and>
                b \<noteq> [] \<and> a \<noteq> [] \<and> ([last b], [hd a]) \<in> set OPEN_CLOSE_MAPPING)
      then (True, if d then Some \<lparr> steps = [Delete (sel_from st - 1) (sel_from st + 1)],
                                   selectionNear = None \<rparr>
                  else None)
      else (False, None))"
  by (auto simp: createBackspaceInputHandler_def Let_def js_index_last js_index_first
      isMatchingPair_undefined isMatchingPair_iff dispatched_def deleteTransaction_def
      unhandled_def
      split: option.splits Node.splits)

theorem paired_delete_outcome_witness:
  "createBackspaceInputHandler (paragraphState ''()'' 2 2) True =
     (True, Some \<lparr> steps = [Delete 1 3], selectionNear = None \<rparr>)
   \<and> createBackspaceInputHandler (paragraphState ''(}'' 2 2) True = (False, None)
   \<and> createBackspaceInputHandler (paragraphState ''()'' 1 3) True = (False, None)
   \<and> createBackspaceInputHandler (paragraphState ''()'' 1 1) True = (False, None)"
proof -
  have a: "createBackspaceInputHandler (paragraphState ''()'' 2 2) True =
     (True, Some \<lparr> steps = [Delete 1 3], selectionNear = None \<rparr>)"
    unfolding paired_delete_outcome
    by (simp add: paragraphState_def table_defs char_defs)
  have b: "createBackspaceInputHandler (paragraphState ''(}'' 2 2) True = (False, None)"
    unfolding paired_delete_outcome
    by (simp add: paragraphState_def table_defs char_defs)
  have c: "createBackspaceInputHandler (paragraphState ''()'' 1 3) True = (False, None)"
    unfolding paired_delete_outcome
    by (simp add: paragraphState_def)
  have d: "createBackspaceInputHandler (paragraphState ''()'' 1 1) True = (False, None)"
    unfolding paired_delete_outcome
    by (simp add: paragraphState_def)
  show ?thesis using a b c d by blast
qed

section \<open>The key bindings\<close>

text \<open>
  Claim C10. Whatever the configuration, the key bindings hold the delete handler
  under \<open>Backspace\<close>, the same command for any two configurations; between the two
  characters of any pair of the mapping it deletes both, whether or not the pair's
  group is enabled.
\<close>

theorem backspace_binding_independent_of_configuration:
  "map_of (buildKeyBindings options) BACKSPACE = Some createBackspaceInputHandler
   \<and> map_of (buildKeyBindings options') BACKSPACE = map_of (buildKeyBindings options) BACKSPACE
   \<and> ((a, b) \<in> set OPEN_CLOSE_MAPPING \<longrightarrow>
        (case map_of (buildKeyBindings options) BACKSPACE of
           Some h \<Rightarrow> h (paragraphState (a @ b) 2 2) True = (True, Some (deleteTransaction 2))
         | None \<Rightarrow> False))"
proof -
  have k: "map_of (buildKeyBindings opts) BACKSPACE = Some createBackspaceInputHandler" for opts
    by (simp add: buildKeyBindings_def Let_def map_of_obj_set)
  have "createBackspaceInputHandler (paragraphState (a @ b) 2 2) True =
          (True, Some (deleteTransaction 2))"
    if "(a, b) \<in> set OPEN_CLOSE_MAPPING"
    using that
    by (auto simp: createBackspaceInputHandler_def Let_def js_index_def isMatchingPair_iff
        paragraphState_def dispatched_def table_defs char_defs)
  then show ?thesis using k by simp
qed

theorem backspace_binding_independent_of_configuration_witness:
  "(OpeningBracket_Round, ClosingBracket_Round) \<in> set OPEN_CLOSE_MAPPING
   \<and> getEnabledAutopairChars (map (\<lambda>(g, enabled). (g, False)) defaultConfig) = []
   \<and> map fst (buildKeyBindings (map (\<lambda>(g, enabled). (g, False)) defaultConfig)) = [BACKSPACE]
   \<and> (case map_of (buildKeyBindings (map (\<lambda>(g, enabled). (g, False)) defaultConfig)) BACKSPACE of
         Some h \<Rightarrow> h (paragraphState ''()'' 2 2) True =
                     (True, Some \<lparr> steps = [Delete 1 3], selectionNear = None \<rparr>)
       | None \<Rightarrow> False)"
proof -
  let ?off = "map (\<lambda>(g, enabled). (g, False)) defaultConfig"
  have p: "(OpeningBracket_Round, ClosingBracket_Round) \<in> set OPEN_CLOSE_MAPPING"
    by (simp add: OPEN_CLOSE_MAPPING_def)
  have n: "getEnabledAutopairChars ?off = []"
    by (simp add: getEnabledAutopairChars_def defaultConfig_def spread_def)
  have m: "map fst (buildKeyBindings ?off) = [BACKSPACE]"
    unfolding buildKeyBindings_def n by (simp add: Let_def)
  have "case map_of (buildKeyBindings ?off) BACKSPACE of
         Some h \<Rightarrow> h (paragraphState (OpeningBracket_Round @ ClosingBracket_Round) 2 2) True =
                     (True, Some (deleteTransaction 2))
       | None \<Rightarrow> False"
    using backspace_binding_independent_of_configuration
      [of ?off ?off OpeningBracket_Round ClosingBracket_Round] p by blast
  then have h: "case map_of (buildKeyBindings ?off) BACKSPACE of
         Some h \<Rightarrow> h (paragraphState ''()'' 2 2) True =
                     (True, Some \<lparr> steps = [Delete 1 3], selectionNear = None \<rparr>)
       | None \<Rightarrow> False"
    by (simp add: char_defs deleteTransaction_def split: option.splits)
  show ?thesis using p n m h by blast
qed

end
